theory Spec2Isabelle
  imports Main
begin

section \<open>The NotiBoost React SDK: provider, wrapped operations and hooks\<close>

text \<open>
  The package is one file, \<open>src/index.tsx\<close>: a provider component that builds one client and
  wraps each client method in \<open>handleRequest\<close>, and three hooks (\<open>useNotiBoost\<close>,
  \<open>useEvent\<close>, \<open>useUser\<close>). The client itself comes from \<open>@notiboost/browser-sdk\<close> and is
  opaque: its behaviour is a parameter of the model.

  A call is modelled from the moment it starts to the moment it settles. A promise is the
  pair of its outcome and the state it leaves: \<open>Inr v\<close> when it resolves with \<open>v\<close>,
  \<open>Inl v\<close> when it rejects with \<open>v\<close>. The code yields at each \<open>await\<close>, so other calls
  can run on the shared state while a client call is pending: \<open>client_call\<close> is the call
  with nothing running meanwhile, \<open>client_call_during\<close> the call with something.
\<close>

subsection \<open>Values\<close>

text \<open>
  Modelled from the spec: the class \<open>NotiBoostError\<close> is declared in
  \<open>@notiboost/browser-sdk\<close>, which is not part of the repository. The spec describes it as
  the one error kind, carrying a message and a status code; the source builds it with
  \<open>new NotiBoostError(message, 0)\<close>.
\<close>

record NotiBoostError =
  message :: string
  statusCode :: int

definition NotiBoostError_new :: "string \<Rightarrow> int \<Rightarrow> NotiBoostError" where
  "NotiBoostError_new m c = \<lparr>message = m, statusCode = c\<rparr>"

text \<open>
  The JavaScript values that travel through the wrappers: payloads and results are typed
  \<open>any\<close> in the source, and a rejection can carry any value. \<open>JError m\<close> is an instance of
  \<open>Error\<close> (and not of \<open>NotiBoostError\<close>) with message \<open>m\<close>; \<open>JNotiBoostError e\<close> is an
  instance of \<open>NotiBoostError\<close>; the other constructors are not instances of \<open>Error\<close>.
\<close>

datatype jsval =
    JUndefined
  | JNull
  | JNum int
  | JStr string
  | JObj "(string \<times> jsval) list"
  | JError string
  | JNotiBoostError NotiBoostError

text \<open>The \<open>message\<close> property of a value, when it has one that is a string.\<close>

fun js_message :: "jsval \<Rightarrow> string option" where
  "js_message (JError m) = Some m"
| "js_message (JNotiBoostError e) = Some (message e)"
| "js_message (JObj props) =
     (case map_of props ''message'' of Some (JStr m) \<Rightarrow> Some m | _ \<Rightarrow> None)"
| "js_message _ = None"

text \<open>
  The expression shared by every \<open>catch\<close> block of the file:
  \<^verbatim>\<open>err instanceof NotiBoostError ? err
     : new NotiBoostError(err instanceof Error ? err.message : 'Unknown error', 0)\<close>
\<close>

fun toNotiBoostError :: "jsval \<Rightarrow> NotiBoostError" where
  "toNotiBoostError (JNotiBoostError e) = e"
| "toNotiBoostError (JError m) = NotiBoostError_new m 0"
| "toNotiBoostError _ = NotiBoostError_new ''Unknown error'' 0"

subsection \<open>The external client\<close>

text \<open>The methods of the client that the provider wraps, with their arguments.\<close>

datatype request =
    EventsIngest jsval
  | EventsIngestBatch "jsval list"
  | UsersCreate jsval
  | UsersGet string
  | UsersUpdate string jsval
  | UsersDelete string
  | UsersSetChannelData string jsval
  | UsersSetPreferences string jsval

text \<open>
  What the client does with a request is outside the repository: a function of the request
  and of the state \<open>'w\<close> of the outside world (the server), giving the settled outcome and
  the next state of the world.
\<close>

type_synonym 'w client_behaviour = "request \<Rightarrow> 'w \<Rightarrow> (jsval + jsval) \<times> 'w"

subsection \<open>State\<close>

text \<open>
  Every effect of the code, in the order it happens: the state setters of the provider
  (\<open>SetLoading\<close>, \<open>SetError\<close>), those of \<open>useUser\<close> (\<open>UserSetUser\<close>, \<open>UserSetLoading\<close>,
  \<open>UserSetError\<close>) and the calls of client methods.
\<close>

datatype effect =
    SetLoading bool
  | SetError "NotiBoostError option"
  | UserSetUser jsval
  | UserSetLoading bool
  | UserSetError "NotiBoostError option"
  | ClientCall request

text \<open>
  The \<open>useState\<close> slots of the provider (\<open>p_loading\<close>, \<open>p_error\<close>) and of one \<open>useUser\<close>
  hook (\<open>u_user\<close>, \<open>u_loading\<close>, \<open>u_error\<close>), the outside world, and the log of effects.
\<close>

record 'w sys =
  p_loading :: bool
  p_error :: "NotiBoostError option"
  u_user :: jsval
  u_loading :: bool
  u_error :: "NotiBoostError option"
  world :: 'w
  trace :: "effect list"

text \<open>The initial values given to \<open>useState\<close>: \<open>false\<close>, \<open>null\<close>, \<open>null\<close>, \<open>false\<close>, \<open>null\<close>.\<close>

definition init_sys :: "'w \<Rightarrow> 'w sys" where
  "init_sys w = \<lparr>p_loading = False, p_error = None, u_user = JNull, u_loading = False,
     u_error = None, world = w, trace = []\<rparr>"

definition setLoading :: "bool \<Rightarrow> 'w sys \<Rightarrow> 'w sys" where
  "setLoading b s = s\<lparr>p_loading := b, trace := trace s @ [SetLoading b]\<rparr>"

definition setError :: "NotiBoostError option \<Rightarrow> 'w sys \<Rightarrow> 'w sys" where
  "setError e s = s\<lparr>p_error := e, trace := trace s @ [SetError e]\<rparr>"

definition useUser_setUser :: "jsval \<Rightarrow> 'w sys \<Rightarrow> 'w sys" where
  "useUser_setUser u s = s\<lparr>u_user := u, trace := trace s @ [UserSetUser u]\<rparr>"

definition useUser_setLoading :: "bool \<Rightarrow> 'w sys \<Rightarrow> 'w sys" where
  "useUser_setLoading b s = s\<lparr>u_loading := b, trace := trace s @ [UserSetLoading b]\<rparr>"

definition useUser_setError :: "NotiBoostError option \<Rightarrow> 'w sys \<Rightarrow> 'w sys" where
  "useUser_setError e s = s\<lparr>u_error := e, trace := trace s @ [UserSetError e]\<rparr>"

text \<open>Calling a method of the client: the call is logged and the world moves on.\<close>

definition client_call :: "'w client_behaviour \<Rightarrow> request \<Rightarrow> 'w sys \<Rightarrow> (jsval + jsval) \<times> 'w sys" where
  "client_call srv req s =
     (case srv req (world s) of
        (out, w') \<Rightarrow> (out, s\<lparr>world := w', trace := trace s @ [ClientCall req]\<rparr>))"

text \<open>
  The same call with other code running while it is pending: the call is started and logged,
  \<open>meanwhile\<close> runs on the shared state (other calls, from their start to their end), and then
  the promise settles.
\<close>

definition client_call_during ::
  "'w client_behaviour \<Rightarrow> request \<Rightarrow> ('w sys \<Rightarrow> 'w sys) \<Rightarrow> 'w sys \<Rightarrow> (jsval + jsval) \<times> 'w sys" where
  "client_call_during srv req meanwhile s =
     (case srv req (world s) of
        (out, w') \<Rightarrow> (out, meanwhile (s\<lparr>world := w', trace := trace s @ [ClientCall req]\<rparr>)))"

subsection \<open>The provider\<close>

text \<open>
  \<open>handleRequest\<close>: set loading, clear the error, await the request; on success return the
  result; on failure normalise, store and re-throw; in both cases (\<open>finally\<close>) reset loading.
\<close>

definition handleRequest ::
  "('w sys \<Rightarrow> (jsval + jsval) \<times> 'w sys) \<Rightarrow> 'w sys \<Rightarrow> (jsval + jsval) \<times> 'w sys" where
  "handleRequest requestFn s =
     (case requestFn (setError None (setLoading True s)) of
        (Inr result, s') \<Rightarrow> (Inr result, setLoading False s')
      | (Inl err, s') \<Rightarrow>
          (let notiBoostError = toNotiBoostError err in
             (Inl (JNotiBoostError notiBoostError),
              setLoading False (setError (Some notiBoostError) s'))))"

definition ingestEvent :: "'w client_behaviour \<Rightarrow> jsval \<Rightarrow> 'w sys \<Rightarrow> (jsval + jsval) \<times> 'w sys" where
  "ingestEvent srv event = handleRequest (client_call srv (EventsIngest event))"

definition ingestEventBatch :: "'w client_behaviour \<Rightarrow> jsval list \<Rightarrow> 'w sys \<Rightarrow> (jsval + jsval) \<times> 'w sys" where
  "ingestEventBatch srv events = handleRequest (client_call srv (EventsIngestBatch events))"

definition createUser :: "'w client_behaviour \<Rightarrow> jsval \<Rightarrow> 'w sys \<Rightarrow> (jsval + jsval) \<times> 'w sys" where
  "createUser srv user = handleRequest (client_call srv (UsersCreate user))"

definition getUser :: "'w client_behaviour \<Rightarrow> string \<Rightarrow> 'w sys \<Rightarrow> (jsval + jsval) \<times> 'w sys" where
  "getUser srv userId = handleRequest (client_call srv (UsersGet userId))"

definition updateUser :: "'w client_behaviour \<Rightarrow> string \<Rightarrow> jsval \<Rightarrow> 'w sys \<Rightarrow> (jsval + jsval) \<times> 'w sys" where
  "updateUser srv userId data = handleRequest (client_call srv (UsersUpdate userId data))"

definition deleteUser :: "'w client_behaviour \<Rightarrow> string \<Rightarrow> 'w sys \<Rightarrow> (jsval + jsval) \<times> 'w sys" where
  "deleteUser srv userId = handleRequest (client_call srv (UsersDelete userId))"

definition setChannelData :: "'w client_behaviour \<Rightarrow> string \<Rightarrow> jsval \<Rightarrow> 'w sys \<Rightarrow> (jsval + jsval) \<times> 'w sys" where
  "setChannelData srv userId channelData =
     handleRequest (client_call srv (UsersSetChannelData userId channelData))"

definition setPreferences :: "'w client_behaviour \<Rightarrow> string \<Rightarrow> jsval \<Rightarrow> 'w sys \<Rightarrow> (jsval + jsval) \<times> 'w sys" where
  "setPreferences srv userId preferences =
     handleRequest (client_call srv (UsersSetPreferences userId preferences))"

text \<open>
  The eight operations of the context value, indexed by the client method each one wraps, so
  that a statement about all of them is one statement.
\<close>

fun provider_op :: "'w client_behaviour \<Rightarrow> request \<Rightarrow> 'w sys \<Rightarrow> (jsval + jsval) \<times> 'w sys" where
  "provider_op srv (EventsIngest event) = ingestEvent srv event"
| "provider_op srv (EventsIngestBatch events) = ingestEventBatch srv events"
| "provider_op srv (UsersCreate user) = createUser srv user"
| "provider_op srv (UsersGet userId) = getUser srv userId"
| "provider_op srv (UsersUpdate userId data) = updateUser srv userId data"
| "provider_op srv (UsersDelete userId) = deleteUser srv userId"
| "provider_op srv (UsersSetChannelData userId channelData) = setChannelData srv userId channelData"
| "provider_op srv (UsersSetPreferences userId preferences) = setPreferences srv userId preferences"

text \<open>
  A provider operation during whose client call \<open>meanwhile\<close> runs: \<open>handleRequest\<close> around the
  same client method, awaited while the rest of the application goes on.
\<close>

definition provider_op_during ::
  "'w client_behaviour \<Rightarrow> request \<Rightarrow> ('w sys \<Rightarrow> 'w sys) \<Rightarrow> 'w sys \<Rightarrow> (jsval + jsval) \<times> 'w sys" where
  "provider_op_during srv req meanwhile = handleRequest (client_call_during srv req meanwhile)"

subsection \<open>Mounting the provider\<close>

text \<open>
  The configuration object handed to \<open>new NotiBoostClient\<close>, and the props of the provider
  (\<open>children\<close> plays no part). \<open>baseURL\<close>, \<open>timeout\<close> and \<open>retries\<close> are optional.
\<close>

record NotiBoostConfig =
  apiKey :: string
  baseURL :: "string option"
  timeout :: "int option"
  retries :: "int option"

record NotiBoostProviderProps =
  props_apiKey :: string
  props_baseURL :: "string option"
  props_timeout :: "int option"
  props_retries :: "int option"

text \<open>The client is opaque; an instance is known by the configuration it was built from.\<close>

datatype NotiBoostClient = NotiBoostClient NotiBoostConfig

text \<open>
  The three \<open>useState\<close> slots of a mounted provider, and the number of times
  \<open>new NotiBoostClient\<close> has run for it.
\<close>

record provider_slots =
  slot_client :: NotiBoostClient
  slot_loading :: bool
  slot_error :: "NotiBoostError option"
  constructions :: nat

text \<open>
  One render of \<open>NotiBoostProvider\<close>. \<open>useState(init)\<close> evaluates its initialiser on the
  first render only (no slots yet: \<open>None\<close>); on a later render it returns what the slot holds,
  whatever the props are by then.
\<close>

definition NotiBoostProvider :: "NotiBoostProviderProps \<Rightarrow> provider_slots option \<Rightarrow> provider_slots" where
  "NotiBoostProvider props slots =
     (case slots of
        None \<Rightarrow>
          \<lparr>slot_client = NotiBoostClient
             \<lparr>apiKey = props_apiKey props, baseURL = props_baseURL props,
              timeout = props_timeout props, retries = props_retries props\<rparr>,
           slot_loading = False, slot_error = None, constructions = 1\<rparr>
      | Some st \<Rightarrow> st)"

text \<open>The renders of one mounted provider, one per element of the list of props.\<close>

fun renders :: "NotiBoostProviderProps list \<Rightarrow> provider_slots option \<Rightarrow> provider_slots option" where
  "renders [] slots = slots"
| "renders (props # rest) slots = renders rest (Some (NotiBoostProvider props slots))"

subsection \<open>The hooks\<close>

text \<open>
  The context value, without its eight operations (they are the functions above). The
  context is \<open>undefined\<close> outside a provider: \<open>None\<close>.
\<close>

record NotiBoostContextType =
  ctx_client :: NotiBoostClient
  ctx_loading :: bool
  ctx_error :: "NotiBoostError option"

definition context_value :: "NotiBoostClient \<Rightarrow> 'w sys \<Rightarrow> NotiBoostContextType" where
  "context_value cl s = \<lparr>ctx_client = cl, ctx_loading = p_loading s, ctx_error = p_error s\<rparr>"

definition useNotiBoost :: "NotiBoostContextType option \<Rightarrow> jsval + NotiBoostContextType" where
  "useNotiBoost context =
     (case context of
        None \<Rightarrow> Inl (JError ''useNotiBoost must be used within NotiBoostProvider'')
      | Some c \<Rightarrow> Inr c)"

record UseEventReturn =
  ev_loading :: bool
  ev_error :: "NotiBoostError option"

definition useEvent :: "NotiBoostContextType option \<Rightarrow> jsval + UseEventReturn" where
  "useEvent context =
     (case useNotiBoost context of
        Inl err \<Rightarrow> Inl err
      | Inr c \<Rightarrow> Inr \<lparr>ev_loading = ctx_loading c, ev_error = ctx_error c\<rparr>)"

text \<open>The \<open>ingest\<close> field of what \<open>useEvent\<close> returns is \<open>ingestEvent\<close> itself.\<close>

definition useEvent_ingest :: "'w client_behaviour \<Rightarrow> jsval \<Rightarrow> 'w sys \<Rightarrow> (jsval + jsval) \<times> 'w sys" where
  "useEvent_ingest = ingestEvent"

record UseUserReturn =
  ret_user :: jsval
  ret_loading :: bool
  ret_error :: "NotiBoostError option"

text \<open>
  A render of \<open>useUser\<close>: it reads the context first, then returns its own three slots (not
  the provider's \<open>loading\<close> and \<open>error\<close>).
\<close>

definition useUser :: "NotiBoostContextType option \<Rightarrow> string \<Rightarrow> 'w sys \<Rightarrow> jsval + UseUserReturn" where
  "useUser context userId s =
     (case useNotiBoost context of
        Inl err \<Rightarrow> Inl err
      | Inr c \<Rightarrow> Inr \<lparr>ret_user = u_user s, ret_loading = u_loading s, ret_error = u_error s\<rparr>)"

text \<open>
  \<open>refresh\<close>: nothing for a falsy \<open>userId\<close> (the empty string, \<open>userId\<close> being a string);
  otherwise fetch through the wrapped \<open>getUser\<close>, store the record or the normalised error,
  and resolve with \<open>undefined\<close> in both cases: the \<open>catch\<close> block has no \<open>throw\<close>.
\<close>

definition useUser_refresh :: "'w client_behaviour \<Rightarrow> string \<Rightarrow> 'w sys \<Rightarrow> (jsval + jsval) \<times> 'w sys" where
  "useUser_refresh srv userId s =
     (if userId = [] then (Inr JUndefined, s)
      else
        (case getUser srv userId (useUser_setError None (useUser_setLoading True s)) of
           (Inr userData, s') \<Rightarrow>
             (Inr JUndefined, useUser_setLoading False (useUser_setUser userData s'))
         | (Inl err, s') \<Rightarrow>
             (let notiBoostError = toNotiBoostError err in
                (Inr JUndefined,
                 useUser_setLoading False (useUser_setError (Some notiBoostError) s')))))"

text \<open>
  \<open>update\<close> of \<open>useUser\<close>: nothing for a falsy \<open>userId\<close>; otherwise await the wrapped
  \<open>updateUser\<close>, then \<open>refresh\<close>. The \<open>catch\<close> block stores and re-throws whatever either of
  them rejected with, the \<open>finally\<close> block resets loading, and the function returns no value.
\<close>

definition useUser_update :: "'w client_behaviour \<Rightarrow> string \<Rightarrow> jsval \<Rightarrow> 'w sys \<Rightarrow> (jsval + jsval) \<times> 'w sys" where
  "useUser_update srv userId data s =
     (if userId = [] then (Inr JUndefined, s)
      else
        (case updateUser srv userId data (useUser_setError None (useUser_setLoading True s)) of
           (Inl err, s') \<Rightarrow>
             (let notiBoostError = toNotiBoostError err in
                (Inl (JNotiBoostError notiBoostError),
                 useUser_setLoading False (useUser_setError (Some notiBoostError) s')))
         | (Inr _, s') \<Rightarrow>
             (case useUser_refresh srv userId s' of
                (Inl err, s'') \<Rightarrow>
                  (let notiBoostError = toNotiBoostError err in
                     (Inl (JNotiBoostError notiBoostError),
                      useUser_setLoading False (useUser_setError (Some notiBoostError) s'')))
              | (Inr _, s'') \<Rightarrow> (Inr JUndefined, useUser_setLoading False s''))))"

text \<open>\<open>setChannelData\<close> of \<open>useUser\<close>: the same body around the wrapped \<open>setChannelData\<close>.\<close>

definition useUser_setChannelData ::
  "'w client_behaviour \<Rightarrow> string \<Rightarrow> jsval \<Rightarrow> 'w sys \<Rightarrow> (jsval + jsval) \<times> 'w sys" where
  "useUser_setChannelData srv userId channelData s =
     (if userId = [] then (Inr JUndefined, s)
      else
        (case setChannelData srv userId channelData
                (useUser_setError None (useUser_setLoading True s)) of
           (Inl err, s') \<Rightarrow>
             (let notiBoostError = toNotiBoostError err in
                (Inl (JNotiBoostError notiBoostError),
                 useUser_setLoading False (useUser_setError (Some notiBoostError) s')))
         | (Inr _, s') \<Rightarrow>
             (case useUser_refresh srv userId s' of
                (Inl err, s'') \<Rightarrow>
                  (let notiBoostError = toNotiBoostError err in
                     (Inl (JNotiBoostError notiBoostError),
                      useUser_setLoading False (useUser_setError (Some notiBoostError) s'')))
              | (Inr _, s'') \<Rightarrow> (Inr JUndefined, useUser_setLoading False s''))))"


subsection \<open>Concrete clients and values\<close>

text \<open>A client whose every call rejects with the same value, over a world with no state.\<close>

definition always_reject :: "jsval \<Rightarrow> unit client_behaviour" where
  "always_reject v req w = (Inl v, w)"

text \<open>A rejection that is a plain object, not an \<open>Error\<close>: \<open>{message: 'rate limited', statusCode: 429}\<close>.\<close>

definition rate_limited :: jsval where
  "rate_limited = JObj [(''message'', JStr ''rate limited''), (''statusCode'', JNum 429)]"

text \<open>
  A small server that keeps one user record, which is its whole state: an update or a
  channel-data set replaces the record by the payload, a fetch returns the record, and every
  other call resolves with \<open>null\<close>.
\<close>

fun record_server :: "jsval client_behaviour" where
  "record_server (UsersUpdate userId d) w = (Inr JNull, d)"
| "record_server (UsersSetChannelData userId d) w = (Inr JNull, d)"
| "record_server (UsersGet userId) w = (Inr w, w)"
| "record_server (EventsIngest e) w = (Inr JNull, w)"
| "record_server (EventsIngestBatch es) w = (Inr JNull, w)"
| "record_server (UsersCreate u) w = (Inr JNull, w)"
| "record_server (UsersDelete userId) w = (Inr JNull, w)"
| "record_server (UsersSetPreferences userId p) w = (Inr JNull, w)"

text \<open>The same server with the fetch broken: \<open>users.get\<close> rejects with \<open>new Error('network down')\<close>.\<close>

fun broken_fetch_server :: "jsval client_behaviour" where
  "broken_fetch_server (UsersGet userId) w = (Inl (JError ''network down''), w)"
| "broken_fetch_server (UsersUpdate userId d) w = (Inr JNull, d)"
| "broken_fetch_server (UsersSetChannelData userId d) w = (Inr JNull, d)"
| "broken_fetch_server (EventsIngest e) w = (Inr JNull, w)"
| "broken_fetch_server (EventsIngestBatch es) w = (Inr JNull, w)"
| "broken_fetch_server (UsersCreate u) w = (Inr JNull, w)"
| "broken_fetch_server (UsersDelete userId) w = (Inr JNull, w)"
| "broken_fetch_server (UsersSetPreferences userId p) w = (Inr JNull, w)"

text \<open>The same server with the deletion broken: \<open>users.delete\<close> rejects with \<open>new Error('boom')\<close>.\<close>

fun delete_rejecting_server :: "jsval client_behaviour" where
  "delete_rejecting_server (UsersDelete userId) w = (Inl (JError ''boom''), w)"
| "delete_rejecting_server (UsersGet userId) w = (Inr w, w)"
| "delete_rejecting_server (UsersUpdate userId d) w = (Inr JNull, d)"
| "delete_rejecting_server (UsersSetChannelData userId d) w = (Inr JNull, d)"
| "delete_rejecting_server (EventsIngest e) w = (Inr JNull, w)"
| "delete_rejecting_server (EventsIngestBatch es) w = (Inr JNull, w)"
| "delete_rejecting_server (UsersCreate u) w = (Inr JNull, w)"
| "delete_rejecting_server (UsersSetPreferences userId p) w = (Inr JNull, w)"

text \<open>Another component deleting user \<open>u2\<close> through the provider, from start to settling.\<close>

definition overlapping_delete :: "'w client_behaviour \<Rightarrow> 'w sys \<Rightarrow> 'w sys" where
  "overlapping_delete srv s = snd (deleteUser srv ''u2'' s)"

text \<open>Two user records, and a hook that has already fetched the first from the server.\<close>

definition old_record :: jsval where
  "old_record = JObj [(''name'', JStr ''Old''), (''phone'', JStr ''0123'')]"

definition new_record :: jsval where
  "new_record = JObj [(''name'', JStr ''New'')]"

definition fetched_sys :: "jsval sys" where
  "fetched_sys = (init_sys old_record)\<lparr>u_user := old_record\<rparr>"


section \<open>What a call leaves behind\<close>

text \<open>
  The state after each operation, written out: one lemma per operation and per outcome of
  the client call. The claims below are read off these.
\<close>

lemmas setter_defs = setLoading_def setError_def useUser_setUser_def useUser_setLoading_def
  useUser_setError_def

lemma provider_op_handleRequest: "provider_op srv req = handleRequest (client_call srv req)"
  by (cases req)
    (simp_all add: ingestEvent_def ingestEventBatch_def createUser_def getUser_def updateUser_def
      deleteUser_def setChannelData_def setPreferences_def)

lemma handleRequest_rejected:
  assumes "srv req (world s) = (Inl v, w')"
  shows "handleRequest (client_call srv req) s =
    (Inl (JNotiBoostError (toNotiBoostError v)),
     s\<lparr>p_loading := False, p_error := Some (toNotiBoostError v), world := w',
       trace := trace s @ [SetLoading True, SetError None, ClientCall req,
         SetError (Some (toNotiBoostError v)), SetLoading False]\<rparr>)"
  using assms by (simp add: handleRequest_def client_call_def setter_defs Let_def)

lemma handleRequest_resolved:
  assumes "srv req (world s) = (Inr r, w')"
  shows "handleRequest (client_call srv req) s =
    (Inr r,
     s\<lparr>p_loading := False, p_error := None, world := w',
       trace := trace s @ [SetLoading True, SetError None, ClientCall req, SetLoading False]\<rparr>)"
  using assms by (simp add: handleRequest_def client_call_def setter_defs Let_def)

lemma refresh_rejected:
  assumes "userId \<noteq> []" and "srv (UsersGet userId) (world s) = (Inl v, w')"
  shows "useUser_refresh srv userId s =
    (Inr JUndefined,
     s\<lparr>p_loading := False, p_error := Some (toNotiBoostError v), u_loading := False,
       u_error := Some (toNotiBoostError v), world := w',
       trace := trace s @ [UserSetLoading True, UserSetError None, SetLoading True,
         SetError None, ClientCall (UsersGet userId), SetError (Some (toNotiBoostError v)),
         SetLoading False, UserSetError (Some (toNotiBoostError v)), UserSetLoading False]\<rparr>)"
proof -
  let ?s1 = "useUser_setError None (useUser_setLoading True s)"
  have w: "srv (UsersGet userId) (world ?s1) = (Inl v, w')"
    using assms(2) by (simp add: setter_defs Let_def)
  show ?thesis
    using assms(1)
    by (simp add: useUser_refresh_def getUser_def handleRequest_rejected [of srv "UsersGet userId" ?s1, OF w])
      (simp add: setter_defs Let_def)
qed

lemma refresh_resolved:
  assumes "userId \<noteq> []" and "srv (UsersGet userId) (world s) = (Inr u, w')"
  shows "useUser_refresh srv userId s =
    (Inr JUndefined,
     s\<lparr>p_loading := False, p_error := None, u_user := u, u_loading := False,
       u_error := None, world := w',
       trace := trace s @ [UserSetLoading True, UserSetError None, SetLoading True,
         SetError None, ClientCall (UsersGet userId),
         SetLoading False, UserSetUser u, UserSetLoading False]\<rparr>)"
proof -
  let ?s1 = "useUser_setError None (useUser_setLoading True s)"
  have w: "srv (UsersGet userId) (world ?s1) = (Inr u, w')"
    using assms(2) by (simp add: setter_defs Let_def)
  show ?thesis
    using assms(1)
    by (simp add: useUser_refresh_def getUser_def handleRequest_resolved [of srv "UsersGet userId" ?s1, OF w])
      (simp add: setter_defs Let_def)
qed


lemma update_rejected:
  assumes "userId \<noteq> []" and "srv (UsersUpdate userId d) (world s) = (Inl v, w')"
  shows "useUser_update srv userId d s =
    (Inl (JNotiBoostError (toNotiBoostError v)),
     s\<lparr>p_loading := False, p_error := Some (toNotiBoostError v), u_loading := False,
       u_error := Some (toNotiBoostError v), world := w',
       trace := trace s @ [UserSetLoading True, UserSetError None, SetLoading True,
         SetError None, ClientCall (UsersUpdate userId d), SetError (Some (toNotiBoostError v)),
         SetLoading False, UserSetError (Some (toNotiBoostError v)), UserSetLoading False]\<rparr>)"
proof -
  let ?s1 = "useUser_setError None (useUser_setLoading True s)"
  have w: "srv (UsersUpdate userId d) (world ?s1) = (Inl v, w')"
    using assms(2) by (simp add: setter_defs Let_def)
  show ?thesis
    using assms(1)
    by (simp add: useUser_update_def updateUser_def
        handleRequest_rejected [of srv "UsersUpdate userId d" ?s1, OF w])
      (simp add: setter_defs Let_def)
qed

lemma update_then_refresh:
  assumes "userId \<noteq> []" and "srv (UsersUpdate userId d) (world s) = (Inr r, w1)"
  shows "useUser_update srv userId d s =
    (Inr JUndefined,
     useUser_setLoading False (snd (useUser_refresh srv userId
       (s\<lparr>p_loading := False, p_error := None, u_loading := True, u_error := None, world := w1,
          trace := trace s @ [UserSetLoading True, UserSetError None, SetLoading True,
            SetError None, ClientCall (UsersUpdate userId d), SetLoading False]\<rparr>))))"
proof -
  let ?s1 = "useUser_setError None (useUser_setLoading True s)"
  have w: "srv (UsersUpdate userId d) (world ?s1) = (Inr r, w1)"
    using assms(2) by (simp add: setter_defs Let_def)
  obtain out w2 where g: "srv (UsersGet userId) w1 = (out, w2)"
    by (cases "srv (UsersGet userId) w1")
  show ?thesis
  proof (cases out)
    case (Inl v)
    with g assms(1) show ?thesis
      by (simp add: useUser_update_def updateUser_def
        handleRequest_resolved [of srv "UsersUpdate userId d" ?s1, OF w])
       (simp add: setter_defs Let_def refresh_rejected)
  next
    case (Inr u)
    with g assms(1) show ?thesis
      by (simp add: useUser_update_def updateUser_def
        handleRequest_resolved [of srv "UsersUpdate userId d" ?s1, OF w])
       (simp add: setter_defs Let_def refresh_resolved)
  qed
qed

lemma setChannelData_rejected:
  assumes "userId \<noteq> []" and "srv (UsersSetChannelData userId d) (world s) = (Inl v, w')"
  shows "useUser_setChannelData srv userId d s =
    (Inl (JNotiBoostError (toNotiBoostError v)),
     s\<lparr>p_loading := False, p_error := Some (toNotiBoostError v), u_loading := False,
       u_error := Some (toNotiBoostError v), world := w',
       trace := trace s @ [UserSetLoading True, UserSetError None, SetLoading True,
         SetError None, ClientCall (UsersSetChannelData userId d), SetError (Some (toNotiBoostError v)),
         SetLoading False, UserSetError (Some (toNotiBoostError v)), UserSetLoading False]\<rparr>)"
proof -
  let ?s1 = "useUser_setError None (useUser_setLoading True s)"
  have w: "srv (UsersSetChannelData userId d) (world ?s1) = (Inl v, w')"
    using assms(2) by (simp add: setter_defs Let_def)
  show ?thesis
    using assms(1)
    by (simp add: useUser_setChannelData_def setChannelData_def
        handleRequest_rejected [of srv "UsersSetChannelData userId d" ?s1, OF w])
      (simp add: setter_defs Let_def)
qed

lemma setChannelData_then_refresh:
  assumes "userId \<noteq> []" and "srv (UsersSetChannelData userId d) (world s) = (Inr r, w1)"
  shows "useUser_setChannelData srv userId d s =
    (Inr JUndefined,
     useUser_setLoading False (snd (useUser_refresh srv userId
       (s\<lparr>p_loading := False, p_error := None, u_loading := True, u_error := None, world := w1,
          trace := trace s @ [UserSetLoading True, UserSetError None, SetLoading True,
            SetError None, ClientCall (UsersSetChannelData userId d), SetLoading False]\<rparr>))))"
proof -
  let ?s1 = "useUser_setError None (useUser_setLoading True s)"
  have w: "srv (UsersSetChannelData userId d) (world ?s1) = (Inr r, w1)"
    using assms(2) by (simp add: setter_defs Let_def)
  obtain out w2 where g: "srv (UsersGet userId) w1 = (out, w2)"
    by (cases "srv (UsersGet userId) w1")
  show ?thesis
  proof (cases out)
    case (Inl v)
    with g assms(1) show ?thesis
      by (simp add: useUser_setChannelData_def setChannelData_def
        handleRequest_resolved [of srv "UsersSetChannelData userId d" ?s1, OF w])
       (simp add: setter_defs Let_def refresh_rejected)
  next
    case (Inr u)
    with g assms(1) show ?thesis
      by (simp add: useUser_setChannelData_def setChannelData_def
        handleRequest_resolved [of srv "UsersSetChannelData userId d" ?s1, OF w])
       (simp add: setter_defs Let_def refresh_resolved)
  qed
qed


lemma update_fetch_rejected:
  assumes "userId \<noteq> []" and "srv (UsersUpdate userId d) (world s) = (Inr r, w1)"
    and "srv (UsersGet userId) w1 = (Inl v, w2)"
  shows "useUser_update srv userId d s =
    (Inr JUndefined,
     s\<lparr>p_loading := False, p_error := Some (toNotiBoostError v), u_loading := False,
       u_error := Some (toNotiBoostError v), world := w2,
       trace := trace s @ [UserSetLoading True, UserSetError None, SetLoading True,
         SetError None, ClientCall (UsersUpdate userId d), SetLoading False,
         UserSetLoading True, UserSetError None, SetLoading True, SetError None,
         ClientCall (UsersGet userId), SetError (Some (toNotiBoostError v)), SetLoading False,
         UserSetError (Some (toNotiBoostError v)), UserSetLoading False,
         UserSetLoading False]\<rparr>)"
proof -
  let ?m = "s\<lparr>p_loading := False, p_error := None, u_loading := True, u_error := None,
    world := w1,
    trace := trace s @ [UserSetLoading True, UserSetError None, SetLoading True,
      SetError None, ClientCall (UsersUpdate userId d), SetLoading False]\<rparr>"
  have g: "srv (UsersGet userId) (world ?m) = (Inl v, w2)"
    using assms(3) by simp
  show ?thesis
    by (simp add: update_then_refresh [of userId srv d s r w1, OF assms(1,2)]
        refresh_rejected [of userId srv ?m v w2, OF assms(1) g] setter_defs)
qed


lemma setChannelData_fetch_rejected:
  assumes "userId \<noteq> []" and "srv (UsersSetChannelData userId d) (world s) = (Inr r, w1)"
    and "srv (UsersGet userId) w1 = (Inl v, w2)"
  shows "useUser_setChannelData srv userId d s =
    (Inr JUndefined,
     s\<lparr>p_loading := False, p_error := Some (toNotiBoostError v), u_loading := False,
       u_error := Some (toNotiBoostError v), world := w2,
       trace := trace s @ [UserSetLoading True, UserSetError None, SetLoading True,
         SetError None, ClientCall (UsersSetChannelData userId d), SetLoading False,
         UserSetLoading True, UserSetError None, SetLoading True, SetError None,
         ClientCall (UsersGet userId), SetError (Some (toNotiBoostError v)), SetLoading False,
         UserSetError (Some (toNotiBoostError v)), UserSetLoading False,
         UserSetLoading False]\<rparr>)"
proof -
  let ?m = "s\<lparr>p_loading := False, p_error := None, u_loading := True, u_error := None,
    world := w1,
    trace := trace s @ [UserSetLoading True, UserSetError None, SetLoading True,
      SetError None, ClientCall (UsersSetChannelData userId d), SetLoading False]\<rparr>"
  have g: "srv (UsersGet userId) (world ?m) = (Inl v, w2)"
    using assms(3) by simp
  show ?thesis
    by (simp add: setChannelData_then_refresh [of userId srv d s r w1, OF assms(1,2)]
        refresh_rejected [of userId srv ?m v w2, OF assms(1) g] setter_defs)
qed


lemma renders_mounted: "renders rest (Some st) = Some st"
  by (induction rest) (simp_all add: NotiBoostProvider_def)

lemma refresh_always_reject:
  "useUser_refresh (always_reject (JError ''boom'')) ''u1'' (init_sys ()) =
    (Inr JUndefined,
     (init_sys ())\<lparr>p_loading := False, p_error := Some (toNotiBoostError (JError ''boom'')), u_loading := False,
       u_error := Some (toNotiBoostError (JError ''boom'')), world := (),
       trace := trace (init_sys ()) @ [UserSetLoading True, UserSetError None, SetLoading True,
         SetError None, ClientCall (UsersGet ''u1''), SetError (Some (toNotiBoostError (JError ''boom''))),
         SetLoading False, UserSetError (Some (toNotiBoostError (JError ''boom''))), UserSetLoading False]\<rparr>)"
  by (rule refresh_rejected) (simp_all add: always_reject_def)



lemma provider_op_no_overlap: "provider_op_during srv req (\<lambda>s. s) = provider_op srv req"
  by (rule ext)
    (simp add: provider_op_during_def provider_op_handleRequest client_call_during_def
      client_call_def handleRequest_def)

lemma handleRequest_during_resolved:
  assumes "srv req (world s) = (Inr r, w')"
  shows "provider_op_during srv req meanwhile s =
    (Inr r,
     setLoading False (meanwhile (s\<lparr>p_loading := True, p_error := None, world := w',
       trace := trace s @ [SetLoading True, SetError None, ClientCall req]\<rparr>)))"
  using assms
  by (simp add: provider_op_during_def handleRequest_def client_call_during_def setLoading_def
      setError_def)

section \<open>The claims\<close>

subsection \<open>C1: what is stored when a wrapped operation rejects\<close>

text \<open>
  C1, as the spec states it: when the client call under one of the eight provider operations
  rejects with \<open>v\<close>, the stored error is \<open>v\<close> if \<open>v\<close> is a \<open>NotiBoostError\<close>, and otherwise a
  wrapper with the original message and code 0. The code keeps the message of an \<open>Error\<close>
  instance only. Here \<open>users.get\<close> rejects with the plain object
  \<open>{message: 'rate limited', statusCode: 429}\<close>: the stored error says \<open>Unknown error\<close>.
\<close>

theorem plain_object_message_not_kept:
  "js_message rate_limited = Some ''rate limited'' \<and>
   p_error (snd (provider_op (always_reject rate_limited) (UsersGet ''u1'') (init_sys ()))) =
     Some \<lparr>message = ''Unknown error'', statusCode = 0\<rparr>"
proof -
  have h: "always_reject rate_limited (UsersGet ''u1'') (world (init_sys ())) = (Inl rate_limited, ())"
    by (simp add: always_reject_def)
  show ?thesis
    by (simp add: provider_op_handleRequest
        handleRequest_rejected [of "always_reject rate_limited" "UsersGet ''u1''" "init_sys ()", OF h])
      (simp add: rate_limited_def NotiBoostError_new_def)
qed

text \<open>
  C1, amended: when the client call under a provider operation rejects with \<open>v\<close>, the stored
  error is non-null; it is \<open>v\<close> itself if \<open>v\<close> is a \<open>NotiBoostError\<close>, a wrapper with the message
  of \<open>v\<close> and code 0 if \<open>v\<close> is another \<open>Error\<close>, and a wrapper with the message
  \<open>Unknown error\<close> and code 0 if \<open>v\<close> is not an \<open>Error\<close> at all.
\<close>

theorem rejection_stored_normalized:
  assumes "srv req (world s) = (Inl v, w')"
  shows "p_error (snd (provider_op srv req s)) =
    Some (case v of
            JNotiBoostError e \<Rightarrow> e
          | JError m \<Rightarrow> \<lparr>message = m, statusCode = 0\<rparr>
          | _ \<Rightarrow> \<lparr>message = ''Unknown error'', statusCode = 0\<rparr>)"
  by (cases v)
    (simp_all add: provider_op_handleRequest handleRequest_rejected [of srv req s, OF assms]
      NotiBoostError_new_def)

theorem rejection_stored_normalized_witness:
  "always_reject (JError ''boom'') (UsersDelete ''u1'') (world (init_sys ())) =
     (Inl (JError ''boom''), ()) \<and>
   p_error (snd (provider_op (always_reject (JError ''boom'')) (UsersDelete ''u1'') (init_sys ()))) =
     Some \<lparr>message = ''boom'', statusCode = 0\<rparr>"
proof -
  have h: "always_reject (JError ''boom'') (UsersDelete ''u1'') (world (init_sys ())) =
     (Inl (JError ''boom''), ())"
    by (simp add: always_reject_def)
  from rejection_stored_normalized
    [of "always_reject (JError ''boom'')" "UsersDelete ''u1''" "init_sys ()", OF h] h
  show ?thesis by simp
qed

subsection \<open>C2: how a failure is surfaced\<close>

text \<open>
  C2, as the spec states it: every failure of an operation of this layer is both stored and
  re-thrown. \<open>refresh\<close> of \<open>useUser\<close> is such an operation, and its \<open>catch\<close> block stores
  the error without throwing: here \<open>users.get\<close> rejects with \<open>new Error('boom')\<close>, the
  error is stored in the hook, and \<open>refresh\<close> resolves with \<open>undefined\<close>.
\<close>

theorem refresh_failure_not_rethrown:
  "fst (always_reject (JError ''boom'') (UsersGet ''u1'') (world (init_sys ()))) = Inl (JError ''boom'') \<and>
   fst (useUser_refresh (always_reject (JError ''boom'')) ''u1'' (init_sys ())) = Inr JUndefined \<and>
   u_error (snd (useUser_refresh (always_reject (JError ''boom'')) ''u1'' (init_sys ()))) =
     Some \<lparr>message = ''boom'', statusCode = 0\<rparr>"
  by (simp add: refresh_always_reject) (simp add: always_reject_def NotiBoostError_new_def)

text \<open>
  C2, amended: when the client call rejects with \<open>v\<close>, each of the eight provider operations
  stores the normalised error in the provider's state and rejects with that same error;
  \<open>update\<close> and \<open>setChannelData\<close> of \<open>useUser\<close>, when their mutation call rejects, store it
  in the hook's state and reject with it; \<open>refresh\<close> of \<open>useUser\<close>, when its fetch rejects,
  stores it in the hook's state and resolves.
\<close>

theorem failure_stored_and_rethrown:
  assumes "srv req (world s) = (Inl v, w')"
  shows "fst (provider_op srv req s) = Inl (JNotiBoostError (toNotiBoostError v)) \<and>
    p_error (snd (provider_op srv req s)) = Some (toNotiBoostError v) \<and>
    (\<forall>userId d. userId \<noteq> [] \<and> req = UsersUpdate userId d \<longrightarrow>
       fst (useUser_update srv userId d s) = Inl (JNotiBoostError (toNotiBoostError v)) \<and>
       u_error (snd (useUser_update srv userId d s)) = Some (toNotiBoostError v)) \<and>
    (\<forall>userId c. userId \<noteq> [] \<and> req = UsersSetChannelData userId c \<longrightarrow>
       fst (useUser_setChannelData srv userId c s) = Inl (JNotiBoostError (toNotiBoostError v)) \<and>
       u_error (snd (useUser_setChannelData srv userId c s)) = Some (toNotiBoostError v)) \<and>
    (\<forall>userId. userId \<noteq> [] \<and> req = UsersGet userId \<longrightarrow>
       fst (useUser_refresh srv userId s) = Inr JUndefined \<and>
       u_error (snd (useUser_refresh srv userId s)) = Some (toNotiBoostError v))"
proof -
  have p: "fst (provider_op srv req s) = Inl (JNotiBoostError (toNotiBoostError v)) \<and>
      p_error (snd (provider_op srv req s)) = Some (toNotiBoostError v)"
    by (simp add: provider_op_handleRequest handleRequest_rejected [of srv req s, OF assms])
  have u: "fst (useUser_update srv userId d s) = Inl (JNotiBoostError (toNotiBoostError v)) \<and>
       u_error (snd (useUser_update srv userId d s)) = Some (toNotiBoostError v)"
    if "userId \<noteq> []" "req = UsersUpdate userId d" for userId d
    using that assms by (simp add: update_rejected [of userId srv d s v w'])
  have c: "fst (useUser_setChannelData srv userId d s) = Inl (JNotiBoostError (toNotiBoostError v)) \<and>
       u_error (snd (useUser_setChannelData srv userId d s)) = Some (toNotiBoostError v)"
    if "userId \<noteq> []" "req = UsersSetChannelData userId d" for userId d
    using that assms by (simp add: setChannelData_rejected [of userId srv d s v w'])
  have r: "fst (useUser_refresh srv userId s) = Inr JUndefined \<and>
       u_error (snd (useUser_refresh srv userId s)) = Some (toNotiBoostError v)"
    if "userId \<noteq> []" "req = UsersGet userId" for userId
    using that assms by (simp add: refresh_rejected [of userId srv s v w'])
  from p u c r show ?thesis by blast
qed

theorem failure_stored_and_rethrown_witness:
  "always_reject (JError ''boom'') (UsersUpdate ''u1'' new_record) (world (init_sys ())) =
     (Inl (JError ''boom''), ()) \<and>
   fst (provider_op (always_reject (JError ''boom'')) (UsersUpdate ''u1'' new_record) (init_sys ())) =
     Inl (JNotiBoostError \<lparr>message = ''boom'', statusCode = 0\<rparr>) \<and>
   p_error (snd (provider_op (always_reject (JError ''boom'')) (UsersUpdate ''u1'' new_record) (init_sys ()))) =
     Some \<lparr>message = ''boom'', statusCode = 0\<rparr> \<and>
   fst (useUser_update (always_reject (JError ''boom'')) ''u1'' new_record (init_sys ())) =
     Inl (JNotiBoostError \<lparr>message = ''boom'', statusCode = 0\<rparr>) \<and>
   u_error (snd (useUser_update (always_reject (JError ''boom'')) ''u1'' new_record (init_sys ()))) =
     Some \<lparr>message = ''boom'', statusCode = 0\<rparr>"
proof -
  have h: "always_reject (JError ''boom'') (UsersUpdate ''u1'' new_record) (world (init_sys ())) =
     (Inl (JError ''boom''), ())"
    by (simp add: always_reject_def)
  from failure_stored_and_rethrown
    [of "always_reject (JError ''boom'')" "UsersUpdate ''u1'' new_record" "init_sys ()", OF h] h
  show ?thesis by (simp add: NotiBoostError_new_def)
qed

subsection \<open>C5: a wrapped call that succeeds\<close>

text \<open>
  C5, as the spec states it: whenever a wrapped call succeeds, the error state is null when
  its result is returned. \<open>handleRequest\<close> clears the error once, before the \<open>await\<close>, and
  the state is shared by all calls. Here \<open>getUser\<close> is pending when another component calls
  \<open>deleteUser\<close>, which rejects and settles first: \<open>getUser\<close> then resolves with the record,
  and the error state holds the error of the deletion.
\<close>

theorem overlapping_rejection_leaves_error:
  "fst (delete_rejecting_server (UsersGet ''u1'') (world fetched_sys)) = Inr old_record \<and>
   fst (provider_op_during delete_rejecting_server (UsersGet ''u1'')
          (overlapping_delete delete_rejecting_server) fetched_sys) = Inr old_record \<and>
   p_error (snd (provider_op_during delete_rejecting_server (UsersGet ''u1'')
          (overlapping_delete delete_rejecting_server) fetched_sys)) =
     Some \<lparr>message = ''boom'', statusCode = 0\<rparr> \<and>
   trace (snd (provider_op_during delete_rejecting_server (UsersGet ''u1'')
          (overlapping_delete delete_rejecting_server) fetched_sys)) =
     [SetLoading True, SetError None, ClientCall (UsersGet ''u1''),
      SetLoading True, SetError None, ClientCall (UsersDelete ''u2''),
      SetError (Some \<lparr>message = ''boom'', statusCode = 0\<rparr>), SetLoading False,
      SetLoading False]"
proof -
  have w: "world fetched_sys = old_record"
    by (simp add: fetched_sys_def init_sys_def)
  have g: "delete_rejecting_server (UsersGet ''u1'') (world fetched_sys) = (Inr old_record, old_record)"
    by (simp add: w)
  let ?m = "fetched_sys\<lparr>p_loading := True, p_error := None, world := old_record,
       trace := [SetLoading True, SetError None, ClientCall (UsersGet ''u1'')]\<rparr>"
  have d: "delete_rejecting_server (UsersDelete ''u2'') (world ?m) = (Inl (JError ''boom''), old_record)"
    by simp
  have t: "trace fetched_sys = []"
    by (simp add: fetched_sys_def init_sys_def)
  have r1: "provider_op_during delete_rejecting_server (UsersGet ''u1'')
      (overlapping_delete delete_rejecting_server) fetched_sys =
    (Inr old_record, setLoading False (overlapping_delete delete_rejecting_server ?m))"
    using handleRequest_during_resolved
        [of delete_rejecting_server "UsersGet ''u1''" fetched_sys old_record old_record, OF g]
    by (simp add: t)
  have r2: "overlapping_delete delete_rejecting_server ?m =
    ?m\<lparr>p_loading := False, p_error := Some (toNotiBoostError (JError ''boom'')),
       world := old_record,
       trace := trace ?m @ [SetLoading True, SetError None, ClientCall (UsersDelete ''u2''),
         SetError (Some (toNotiBoostError (JError ''boom''))), SetLoading False]\<rparr>"
    by (simp only: overlapping_delete_def deleteUser_def snd_conv
        handleRequest_rejected [of delete_rejecting_server "UsersDelete ''u2''" ?m, OF d])
  show ?thesis
    by (simp add: r1 r2 w setLoading_def NotiBoostError_new_def)
qed

text \<open>
  C5, amended: when the client call under a provider operation resolves with \<open>r\<close>, the
  operation resolves with \<open>r\<close>, unchanged, whatever ran meanwhile. The error state was cleared
  before the client call and the operation does not set it afterwards: when the result is
  returned it is what the code that ran while the call was pending left there, and it is null
  when nothing ran meanwhile.
\<close>

theorem success_returns_result:
  assumes "srv req (world s) = (Inr r, w')"
  shows "fst (provider_op srv req s) = Inr r \<and>
    p_error (snd (provider_op srv req s)) = None \<and>
    fst (provider_op_during srv req meanwhile s) = Inr r \<and>
    p_error (snd (provider_op_during srv req meanwhile s)) =
      p_error (meanwhile (s\<lparr>p_loading := True, p_error := None, world := w',
        trace := trace s @ [SetLoading True, SetError None, ClientCall req]\<rparr>))"
  by (simp add: provider_op_handleRequest handleRequest_resolved [of srv req s, OF assms]
      handleRequest_during_resolved [of srv req s, OF assms] setLoading_def)

theorem success_returns_result_witness:
  "record_server (UsersGet ''u1'') (world fetched_sys) = (Inr old_record, old_record) \<and>
   fst (provider_op record_server (UsersGet ''u1'') fetched_sys) = Inr old_record \<and>
   p_error (snd (provider_op record_server (UsersGet ''u1'') fetched_sys)) = None \<and>
   fst (provider_op_during record_server (UsersGet ''u1'') (overlapping_delete record_server)
          fetched_sys) = Inr old_record \<and>
   p_error (snd (provider_op_during record_server (UsersGet ''u1'')
          (overlapping_delete record_server) fetched_sys)) = None"
proof -
  have w: "world fetched_sys = old_record"
    by (simp add: fetched_sys_def init_sys_def)
  have h: "record_server (UsersGet ''u1'') (world fetched_sys) = (Inr old_record, old_record)"
    by (simp add: w)
  let ?m = "fetched_sys\<lparr>p_loading := True, p_error := None, world := old_record,
       trace := trace fetched_sys @ [SetLoading True, SetError None, ClientCall (UsersGet ''u1'')]\<rparr>"
  have d: "record_server (UsersDelete ''u2'') (world ?m) = (Inr JNull, old_record)"
    by simp
  have e: "p_error (overlapping_delete record_server ?m) = None"
    by (simp add: overlapping_delete_def deleteUser_def
        handleRequest_resolved [of record_server "UsersDelete ''u2''" ?m, OF d])
  from success_returns_result
    [of record_server "UsersGet ''u1''" fetched_sys old_record old_record
      "overlapping_delete record_server", OF h] h e
  show ?thesis by simp
qed

subsection \<open>C6: hooks outside a provider\<close>

text \<open>
  C6: with no provider above (the context is undefined), \<open>useNotiBoost\<close>, \<open>useEvent\<close> and
  \<open>useUser\<close> each throw an \<open>Error\<close> whose message says that the hook must be used within
  \<open>NotiBoostProvider\<close>; none returns a value.
\<close>

theorem hooks_outside_provider_throw:
  "useNotiBoost None = Inl (JError ''useNotiBoost must be used within NotiBoostProvider'') \<and>
   useEvent None = Inl (JError ''useNotiBoost must be used within NotiBoostProvider'') \<and>
   useUser None userId s = Inl (JError ''useNotiBoost must be used within NotiBoostProvider'')"
  by (simp add: useNotiBoost_def useEvent_def useUser_def)

subsection \<open>C7: one client per mounted provider\<close>

text \<open>
  C7: over any number of renders of a mounted provider, starting with the first, the client
  is constructed once, from the props of the first render, and its configuration holds the
  API key, base URL, timeout and retry count of those props unchanged.
\<close>

theorem one_client_per_mount:
  "map_option slot_client (renders (props # rest) None) =
     Some (NotiBoostClient \<lparr>apiKey = props_apiKey props, baseURL = props_baseURL props,
       timeout = props_timeout props, retries = props_retries props\<rparr>) \<and>
   map_option constructions (renders (props # rest) None) = Some 1"
  by (simp add: renders_mounted) (simp add: NotiBoostProvider_def)

subsection \<open>C9: an empty user id\<close>

text \<open>
  C9: with an empty \<open>userId\<close>, \<open>refresh\<close>, \<open>update\<close> and \<open>setChannelData\<close> of \<open>useUser\<close>
  resolve with \<open>undefined\<close> and leave the whole state as it was: no setter runs and no
  client method is called (the log of effects is part of the state).
\<close>

theorem empty_userId_noop:
  "useUser_refresh srv [] s = (Inr JUndefined, s) \<and>
   useUser_update srv [] d s = (Inr JUndefined, s) \<and>
   useUser_setChannelData srv [] c s = (Inr JUndefined, s)"
  by (simp add: useUser_refresh_def useUser_update_def useUser_setChannelData_def)

subsection \<open>C3: the loading flag around a call\<close>



subsection \<open>C4: the re-fetch after a mutation\<close>




subsection \<open>C8: the snapshot is replaced, not merged\<close>

text \<open>
  C8: after a fetch by \<open>useUser\<close> that resolves with a record, the snapshot is that record,
  whatever the snapshot was before: nothing of the old snapshot is kept.
\<close>

theorem fetch_replaces_snapshot:
  assumes "userId \<noteq> []" and "srv (UsersGet userId) (world s) = (Inr u, w')"
  shows "u_user (snd (useUser_refresh srv userId s)) = u \<and>
    u_user (snd (useUser_refresh srv userId (s\<lparr>u_user := old\<rparr>))) = u"
proof -
  have "srv (UsersGet userId) (world (s\<lparr>u_user := old\<rparr>)) = (Inr u, w')"
    using assms(2) by simp
  then show ?thesis
    using assms
    by (simp add: refresh_resolved [of userId srv s u w']
        refresh_resolved [of userId srv "s\<lparr>u_user := old\<rparr>" u w'])
qed

theorem fetch_replaces_snapshot_witness:
  "''u1'' \<noteq> [] \<and>
   record_server (UsersGet ''u1'') (world (fetched_sys\<lparr>world := new_record\<rparr>)) =
     (Inr new_record, new_record) \<and>
   u_user (fetched_sys\<lparr>world := new_record\<rparr>) = old_record \<and>
   u_user (snd (useUser_refresh record_server ''u1'' (fetched_sys\<lparr>world := new_record\<rparr>))) =
     new_record"
proof -
  have ne: "''u1'' \<noteq> []" by simp
  have g: "record_server (UsersGet ''u1'') (world (fetched_sys\<lparr>world := new_record\<rparr>)) =
     (Inr new_record, new_record)" by simp
  have o: "u_user (fetched_sys\<lparr>world := new_record\<rparr>) = old_record"
    by (simp add: fetched_sys_def)
  from fetch_replaces_snapshot
    [of "''u1''" record_server "fetched_sys\<lparr>world := new_record\<rparr>" new_record new_record,
      OF ne g] ne g o
  show ?thesis by simp
qed

subsection \<open>C10: refresh never rejects\<close>

text \<open>
  C10: \<open>refresh\<close> of \<open>useUser\<close> resolves with \<open>undefined\<close> on every input. When its fetch
  rejects, the normalised error is in the hook's error state. When an update or a
  channel-data set succeeds and the fetch after it rejects, \<open>update\<close> and \<open>setChannelData\<close>
  of \<open>useUser\<close> resolve all the same, with the normalised error in the hook's error state.
\<close>

theorem refresh_never_rejects:
  "fst (useUser_refresh srv userId s) = Inr JUndefined \<and>
   (userId \<noteq> [] \<and> srv (UsersGet userId) (world s) = (Inl v, w') \<longrightarrow>
      u_error (snd (useUser_refresh srv userId s)) = Some (toNotiBoostError v)) \<and>
   (userId \<noteq> [] \<and> srv (UsersUpdate userId d) (world s) = (Inr r, w1) \<and>
    srv (UsersGet userId) w1 = (Inl v, w2) \<longrightarrow>
      fst (useUser_update srv userId d s) = Inr JUndefined \<and>
      u_error (snd (useUser_update srv userId d s)) = Some (toNotiBoostError v)) \<and>
   (userId \<noteq> [] \<and> srv (UsersSetChannelData userId d) (world s) = (Inr r, w1) \<and>
    srv (UsersGet userId) w1 = (Inl v, w2) \<longrightarrow>
      fst (useUser_setChannelData srv userId d s) = Inr JUndefined \<and>
      u_error (snd (useUser_setChannelData srv userId d s)) = Some (toNotiBoostError v))"
proof -
  have a: "fst (useUser_refresh srv userId s) = Inr JUndefined"
    by (simp add: useUser_refresh_def Let_def split: prod.splits sum.splits)
  have b: "u_error (snd (useUser_refresh srv userId s)) = Some (toNotiBoostError v)"
    if "userId \<noteq> []" "srv (UsersGet userId) (world s) = (Inl v, w')"
    using that by (simp add: refresh_rejected [of userId srv s v w'])
  have c: "fst (useUser_update srv userId d s) = Inr JUndefined \<and>
      u_error (snd (useUser_update srv userId d s)) = Some (toNotiBoostError v)"
    if "userId \<noteq> []" "srv (UsersUpdate userId d) (world s) = (Inr r, w1)"
      "srv (UsersGet userId) w1 = (Inl v, w2)"
    using that by (simp add: update_fetch_rejected [of userId srv d s r w1 v w2])
  have e: "fst (useUser_setChannelData srv userId d s) = Inr JUndefined \<and>
      u_error (snd (useUser_setChannelData srv userId d s)) = Some (toNotiBoostError v)"
    if "userId \<noteq> []" "srv (UsersSetChannelData userId d) (world s) = (Inr r, w1)"
      "srv (UsersGet userId) w1 = (Inl v, w2)"
    using that by (simp add: setChannelData_fetch_rejected [of userId srv d s r w1 v w2])
  from a b c e show ?thesis by blast
qed

theorem refresh_never_rejects_witness:
  "''u1'' \<noteq> [] \<and>
   broken_fetch_server (UsersGet ''u1'') (world fetched_sys) =
     (Inl (JError ''network down''), old_record) \<and>
   broken_fetch_server (UsersUpdate ''u1'' new_record) (world fetched_sys) =
     (Inr JNull, new_record) \<and>
   broken_fetch_server (UsersGet ''u1'') new_record = (Inl (JError ''network down''), new_record) \<and>
   fst (useUser_refresh broken_fetch_server ''u1'' fetched_sys) = Inr JUndefined \<and>
   u_error (snd (useUser_refresh broken_fetch_server ''u1'' fetched_sys)) =
     Some \<lparr>message = ''network down'', statusCode = 0\<rparr> \<and>
   fst (useUser_update broken_fetch_server ''u1'' new_record fetched_sys) = Inr JUndefined \<and>
   u_error (snd (useUser_update broken_fetch_server ''u1'' new_record fetched_sys)) =
     Some \<lparr>message = ''network down'', statusCode = 0\<rparr>"
proof -
  have ne: "''u1'' \<noteq> []" by simp
  have w: "world fetched_sys = old_record" by (simp add: fetched_sys_def init_sys_def)
  have g0: "broken_fetch_server (UsersGet ''u1'') (world fetched_sys) =
     (Inl (JError ''network down''), old_record)" by (simp add: w)
  have u: "broken_fetch_server (UsersUpdate ''u1'' new_record) (world fetched_sys) =
     (Inr JNull, new_record)" by simp
  have g: "broken_fetch_server (UsersGet ''u1'') new_record = (Inl (JError ''network down''), new_record)"
    by simp
  from refresh_never_rejects
    [of broken_fetch_server "''u1''" fetched_sys "JError ''network down''" old_record new_record
      JNull new_record new_record] ne g0 u g
  show ?thesis by (simp add: NotiBoostError_new_def)
qed

end
